theory Spec2Isabelle
  imports Main "HOL-Library.Log_Nat"
begin

section \<open>The options server: call and put evaluators\<close>

text \<open>
  The source is \<^verbatim>\<open>server.py\<close>: two tool functions, \<^verbatim>\<open>call_option\<close> and
  \<^verbatim>\<open>put_option\<close>, each building an object of \<^verbatim>\<open>options_library\<close> and
  returning a dict literal with the keys \<^verbatim>\<open>breakeven\<close>, \<^verbatim>\<open>max_profit\<close> and
  \<^verbatim>\<open>max_loss\<close>.

  Python's \<^verbatim>\<open>+\<close> and \<^verbatim>\<open>-\<close> are those of the run-time type of the arguments:
  IEEE doubles for the annotated type \<^verbatim>\<open>float\<close>, exact integers when the
  functions are called with ints. The functions use nothing else of their arguments, so
  they are embedded generically over a number type \<open>'a\<close> with \<open>+\<close> and \<open>-\<close>
  (the classes \<open>plus\<close> and \<open>minus\<close> assume no law of arithmetic). Neither body reads or
  writes anything but its two arguments and the object it builds, so each function is
  embedded as a function of strike and premium. Where a claim says that a field is what
  an expression computes, equality is equality of values; where it compares two computed
  floats, it is Python's \<^verbatim>\<open>==\<close> (\<open>py_eq\<close> below).
\<close>

subsection \<open>Values of the returned dict\<close>

text \<open>A value of the returned dict is a number or a string (\<^verbatim>\<open>"infinite"\<close>).\<close>

datatype 'a pyval = PyNum 'a | PyStr string

type_synonym 'a pydict = "string \<rightharpoonup> 'a pyval"

subsection \<open>The library classes\<close>

text \<open>
  \<^verbatim>\<open>server.py\<close> imports the classes \<^verbatim>\<open>Call\<close> and \<^verbatim>\<open>Put\<close> from
  \<^verbatim>\<open>options_library\<close>, which is not among the source files. An object is taken as
  the data it is built from: \<^verbatim>\<open>Call(strike, premium)\<close> holds its two constructor
  arguments, and the attribute \<^verbatim>\<open>premium\<close> reads the second one.
\<close>

datatype 'a contract =
    Call (strike_of: 'a) (premium_of: 'a)
  | Put (strike_of: 'a) (premium_of: 'a)

text \<open>
  Modelled from the spec: the method \<^verbatim>\<open>breakeven()\<close> of the two classes of
  \<^verbatim>\<open>options_library\<close> is not among the source files. The spec gives
  \<open>breakeven = strike + premium\<close> for a call and \<open>breakeven = strike - premium\<close> for a
  put, with no validation of the two numbers and no state.
\<close>

fun breakeven :: "'a::{plus,minus} contract \<Rightarrow> 'a" where
  "breakeven (Call strike premium) = strike + premium"
| "breakeven (Put strike premium) = strike - premium"

subsection \<open>The two tools of \<^verbatim>\<open>server.py\<close>\<close>

definition call_option :: "'a::{plus,minus} \<Rightarrow> 'a \<Rightarrow> 'a pydict" where
  "call_option strike premium =
     (let call = Call strike premium in
      [''breakeven'' \<mapsto> PyNum (breakeven call),
       ''max_profit'' \<mapsto> PyStr ''infinite'',
       ''max_loss'' \<mapsto> PyNum (premium_of call)])"

definition put_option :: "'a::{plus,minus} \<Rightarrow> 'a \<Rightarrow> 'a pydict" where
  "put_option strike premium =
     (let put = Put strike premium in
      [''breakeven'' \<mapsto> PyNum (breakeven put),
       ''max_profit'' \<mapsto> PyNum (strike - premium),
       ''max_loss'' \<mapsto> PyNum premium])"

subsection \<open>Python floats\<close>

text \<open>
  The annotated argument type is \<^verbatim>\<open>float\<close>: an IEEE 754 binary64 number.
  \<open>Finite sg m e\<close> stands for \<open>(-1)\<^sup>s\<^sup>g * m * 2\<^sup>e\<close> with \<open>0 \<le> m < 2\<^sup>5\<^sup>3\<close> and
  \<open>-1074 \<le> e \<le> 971\<close>, in normal form: \<open>2\<^sup>5\<^sup>2 \<le> m\<close> unless \<open>e = -1074\<close> (the
  subnormal numbers and the two zeros). The NaNs are one value.
\<close>

datatype pyfloat = Finite bool int int | Infinity bool | NaN

fun is_finite :: "pyfloat \<Rightarrow> bool" where
  "is_finite (Finite sg m e) = True"
| "is_finite (Infinity sg) = False"
| "is_finite NaN = False"

text \<open>
  \<open>pack\<close> renormalises a mantissa that rounding carried to \<open>2\<^sup>5\<^sup>3\<close> and turns an
  exponent above the largest one into an infinity. \<open>round_even sg M E\<close> is the double
  nearest to \<open>M * 2\<^sup>E\<close> (\<open>0 \<le> M\<close>), ties to the even mantissa, which is the rounding
  of every arithmetic operation of Python's floats.
\<close>

definition pack :: "bool \<Rightarrow> int \<Rightarrow> int \<Rightarrow> pyfloat" where
  "pack sg m e =
     (if m = 2 ^ 53 then (if 971 < e + 1 then Infinity sg else Finite sg (2 ^ 52) (e + 1))
      else if 971 < e then Infinity sg
      else Finite sg m e)"

definition round_even :: "bool \<Rightarrow> int \<Rightarrow> int \<Rightarrow> pyfloat" where
  "round_even sg M E =
     (if M = 0 then Finite sg 0 (- 1074)
      else
        let t = max (E + bitlen M - 53) (- 1074) in
        if t \<le> E then pack sg (M * 2 ^ nat (E - t)) t
        else
          let k = nat (t - E); q = M div 2 ^ k; r = M mod 2 ^ k; half = 2 ^ (k - 1) in
          pack sg (if half < r \<or> (r = half \<and> odd q) then q + 1 else q) t)"

definition signed :: "bool \<Rightarrow> int \<Rightarrow> int" where
  "signed sg m = (if sg then - m else m)"

fun fadd :: "pyfloat \<Rightarrow> pyfloat \<Rightarrow> pyfloat" where
  "fadd NaN y = NaN"
| "fadd x NaN = NaN"
| "fadd (Infinity a) (Infinity b) = (if a = b then Infinity a else NaN)"
| "fadd (Infinity a) (Finite s m e) = Infinity a"
| "fadd (Finite s m e) (Infinity b) = Infinity b"
| "fadd (Finite s1 m1 e1) (Finite s2 m2 e2) =
     (let e = min e1 e2;
          v = signed s1 (m1 * 2 ^ nat (e1 - e)) + signed s2 (m2 * 2 ^ nat (e2 - e))
      in if v = 0 then Finite (s1 \<and> s2) 0 (- 1074)
         else round_even (v < 0) \<bar>v\<bar> e)"

fun fneg :: "pyfloat \<Rightarrow> pyfloat" where
  "fneg NaN = NaN"
| "fneg (Infinity a) = Infinity (\<not> a)"
| "fneg (Finite s m e) = Finite (\<not> s) m e"

fun fmul :: "pyfloat \<Rightarrow> pyfloat \<Rightarrow> pyfloat" where
  "fmul NaN y = NaN"
| "fmul x NaN = NaN"
| "fmul (Infinity a) (Infinity b) = Infinity (a \<noteq> b)"
| "fmul (Infinity a) (Finite s m e) = (if m = 0 then NaN else Infinity (a \<noteq> s))"
| "fmul (Finite s m e) (Infinity b) = (if m = 0 then NaN else Infinity (s \<noteq> b))"
| "fmul (Finite s1 m1 e1) (Finite s2 m2 e2) = round_even (s1 \<noteq> s2) (m1 * m2) (e1 + e2)"

fun fless :: "pyfloat \<Rightarrow> pyfloat \<Rightarrow> bool" where
  "fless NaN y = False"
| "fless x NaN = False"
| "fless (Infinity a) (Infinity b) = (a \<and> \<not> b)"
| "fless (Infinity a) (Finite s m e) = a"
| "fless (Finite s m e) (Infinity b) = (\<not> b)"
| "fless (Finite s1 m1 e1) (Finite s2 m2 e2) =
     (let e = min e1 e2
      in signed s1 (m1 * 2 ^ nat (e1 - e)) < signed s2 (m2 * 2 ^ nat (e2 - e)))"

fun fle :: "pyfloat \<Rightarrow> pyfloat \<Rightarrow> bool" where
  "fle NaN y = False"
| "fle x NaN = False"
| "fle (Infinity a) (Infinity b) = (a \<or> \<not> b)"
| "fle (Infinity a) (Finite s m e) = a"
| "fle (Finite s m e) (Infinity b) = (\<not> b)"
| "fle (Finite s1 m1 e1) (Finite s2 m2 e2) =
     (let e = min e1 e2
      in signed s1 (m1 * 2 ^ nat (e1 - e)) \<le> signed s2 (m2 * 2 ^ nat (e2 - e)))"

text \<open>
  The operators of the generic functions at the type of floats. The classes are the
  syntactic ones: float addition is neither associative nor cancellative.
\<close>

instantiation pyfloat :: "{zero, plus, minus, uminus, times, ord}"
begin

definition zero_pyfloat :: pyfloat where
  "zero_pyfloat = Finite False 0 (- 1074)"

definition plus_pyfloat :: "pyfloat \<Rightarrow> pyfloat \<Rightarrow> pyfloat" where
  "plus_pyfloat x y = fadd x y"

definition uminus_pyfloat :: "pyfloat \<Rightarrow> pyfloat" where
  "uminus_pyfloat x = fneg x"

definition minus_pyfloat :: "pyfloat \<Rightarrow> pyfloat \<Rightarrow> pyfloat" where
  "minus_pyfloat x y = fadd x (fneg y)"

definition times_pyfloat :: "pyfloat \<Rightarrow> pyfloat \<Rightarrow> pyfloat" where
  "times_pyfloat x y = fmul x y"

definition less_pyfloat :: "pyfloat \<Rightarrow> pyfloat \<Rightarrow> bool" where
  "less_pyfloat x y = fless x y"

definition less_eq_pyfloat :: "pyfloat \<Rightarrow> pyfloat \<Rightarrow> bool" where
  "less_eq_pyfloat x y = fle x y"

instance ..

end

text \<open>
  The float of an integer literal (\<^verbatim>\<open>100.0\<close>, \<^verbatim>\<open>1e16\<close>): the nearest double.
\<close>

definition float_of_int :: "int \<Rightarrow> pyfloat" where
  "float_of_int i = round_even (i < 0) \<bar>i\<bar> 0"

subsection \<open>The difference of the two breakevens\<close>

text \<open>
  \<^verbatim>\<open>call_option(strike, premium)["breakeven"] - put_option(strike, premium)["breakeven"]\<close>,
  defined when both fields are numbers.
\<close>

definition breakeven_gap :: "'a::{plus,minus} \<Rightarrow> 'a \<Rightarrow> 'a option" where
  "breakeven_gap strike premium =
     (case (call_option strike premium ''breakeven'', put_option strike premium ''breakeven'') of
        (Some (PyNum c), Some (PyNum p)) \<Rightarrow> Some (c - p)
      | _ \<Rightarrow> None)"

subsection \<open>The value of a float, and Python's \<^verbatim>\<open>==\<close>\<close>

text \<open>
  The rational number a finite float stands for; an infinity and NaN stand for none.
\<close>

fun valof :: "pyfloat \<Rightarrow> rat option" where
  "valof (Finite sg m e) =
     Some (of_int (signed sg m) * (if 0 \<le> e then 2 ^ nat e else 1 / 2 ^ nat (- e)))"
| "valof (Infinity sg) = None"
| "valof NaN = None"

text \<open>
  \<^verbatim>\<open>x == y\<close> on floats: finite floats are equal when their values are (so
  \<^verbatim>\<open>0.0 == -0.0\<close>), an infinity is equal to itself only, and NaN is equal to nothing,
  itself included.
\<close>

definition py_eq :: "pyfloat \<Rightarrow> pyfloat \<Rightarrow> bool" where
  "py_eq x y =
     (case (valof x, valof y) of
        (Some a, Some b) \<Rightarrow> a = b
      | _ \<Rightarrow> x = y \<and> x \<noteq> NaN)"

text \<open>
  An operation is exact at two floats when they and its result are finite and the value
  of the result is the sum, difference or product of their values: nothing was rounded.
\<close>

definition exact_add :: "pyfloat \<Rightarrow> pyfloat \<Rightarrow> bool" where
  "exact_add x y =
     (case (valof x, valof y, valof (x + y)) of
        (Some a, Some b, Some c) \<Rightarrow> c = a + b
      | _ \<Rightarrow> False)"

definition exact_sub :: "pyfloat \<Rightarrow> pyfloat \<Rightarrow> bool" where
  "exact_sub x y =
     (case (valof x, valof y, valof (x - y)) of
        (Some a, Some b, Some c) \<Rightarrow> c = a - b
      | _ \<Rightarrow> False)"

definition exact_mul :: "pyfloat \<Rightarrow> pyfloat \<Rightarrow> bool" where
  "exact_mul x y =
     (case (valof x, valof y, valof (x * y)) of
        (Some a, Some b, Some c) \<Rightarrow> c = a * b
      | _ \<Rightarrow> False)"

section \<open>Properties\<close>

subsection \<open>Field by field\<close>

lemma call_option_fields:
  "call_option strike premium ''breakeven'' = Some (PyNum (strike + premium))"
  "call_option strike premium ''max_profit'' = Some (PyStr ''infinite'')"
  "call_option strike premium ''max_loss'' = Some (PyNum premium)"
  by (simp_all add: call_option_def)

lemma put_option_fields:
  "put_option strike premium ''breakeven'' = Some (PyNum (strike - premium))"
  "put_option strike premium ''max_profit'' = Some (PyNum (strike - premium))"
  "put_option strike premium ''max_loss'' = Some (PyNum premium)"
  by (simp_all add: put_option_def)

lemma call_option_dom:
  "dom (call_option strike premium) = {''breakeven'', ''max_profit'', ''max_loss''}"
  by (auto simp add: call_option_def)

lemma put_option_dom:
  "dom (put_option strike premium) = {''breakeven'', ''max_profit'', ''max_loss''}"
  by (auto simp add: put_option_def)

subsection \<open>The float arithmetic on known values\<close>

text \<open>
  Values that Python prints for the same expressions: a tie goes to the even mantissa,
  the sum of the two largest doubles is \<^verbatim>\<open>inf\<close>, \<^verbatim>\<open>inf - inf\<close> is
  \<^verbatim>\<open>nan\<close>, \<^verbatim>\<open>-0.0 + 0.0\<close> is \<^verbatim>\<open>0.0\<close>, and half the smallest subnormal
  number is \<^verbatim>\<open>0.0\<close>.
\<close>

lemma float_ties_to_even:
  "float_of_int (2 ^ 53) + float_of_int 1 = float_of_int (2 ^ 53)"
  "float_of_int (2 ^ 53 + 2) + float_of_int 1 = float_of_int (2 ^ 53 + 4)"
  "float_of_int (2 ^ 53) - float_of_int 1 = Finite False (2 ^ 53 - 1) 0"
  by code_simp+

lemma float_special_values:
  "Finite False (2 ^ 53 - 1) 971 + Finite False (2 ^ 53 - 1) 971 = Infinity False"
  "Infinity False - Infinity False = NaN"
  "Finite True 0 (- 1074) + Finite False 0 (- 1074) = Finite False 0 (- 1074)"
  "Finite False 1 (- 1074) * Finite False (2 ^ 52) (- 53) = Finite False 0 (- 1074)"
  by code_simp+

subsection \<open>The concrete scenarios of the spec, on floats\<close>

lemma scenario_call_100_5:
  "call_option (float_of_int 100) (float_of_int 5) =
     [''breakeven'' \<mapsto> PyNum (float_of_int 105), ''max_profit'' \<mapsto> PyStr ''infinite'',
      ''max_loss'' \<mapsto> PyNum (float_of_int 5)]"
proof -
  have "float_of_int 100 + float_of_int 5 = float_of_int 105" by code_simp
  then show ?thesis by (simp add: call_option_def)
qed

lemma scenario_put_100_5:
  "put_option (float_of_int 100) (float_of_int 5) =
     [''breakeven'' \<mapsto> PyNum (float_of_int 95), ''max_profit'' \<mapsto> PyNum (float_of_int 95),
      ''max_loss'' \<mapsto> PyNum (float_of_int 5)]"
proof -
  have "float_of_int 100 - float_of_int 5 = float_of_int 95" by code_simp
  then show ?thesis by (simp add: put_option_def)
qed

lemma scenario_call_50_0:
  "call_option (float_of_int 50) (float_of_int 0) =
     [''breakeven'' \<mapsto> PyNum (float_of_int 50), ''max_profit'' \<mapsto> PyStr ''infinite'',
      ''max_loss'' \<mapsto> PyNum (float_of_int 0)]"
proof -
  have "float_of_int 50 + float_of_int 0 = float_of_int 50" by code_simp
  then show ?thesis by (simp add: call_option_def)
qed

lemma scenario_put_50_60:
  "put_option (float_of_int 50) (float_of_int 60) =
     [''breakeven'' \<mapsto> PyNum (float_of_int (- 10)), ''max_profit'' \<mapsto> PyNum (float_of_int (- 10)),
      ''max_loss'' \<mapsto> PyNum (float_of_int 60)]"
proof -
  have "float_of_int 50 - float_of_int 60 = float_of_int (- 10)" by code_simp
  then show ?thesis by (simp add: put_option_def)
qed

subsection \<open>Floats: equality, NaN and exact operations\<close>

lemma py_eq_refl: "py_eq x x = (x \<noteq> NaN)"
  by (cases x) (simp_all add: py_eq_def)

lemma pack_not_NaN: "pack sg m e \<noteq> NaN"
  by (simp add: pack_def)

lemma round_even_not_NaN: "round_even sg M E \<noteq> NaN"
  by (simp add: round_even_def Let_def pack_not_NaN)

lemma fadd_finite_not_NaN: "fadd (Finite s1 m1 e1) (Finite s2 m2 e2) \<noteq> NaN"
  by (simp add: Let_def round_even_not_NaN)

lemma finite_sub_not_NaN:
  "is_finite x \<Longrightarrow> is_finite y \<Longrightarrow> x - y \<noteq> NaN"
  by (cases x; cases y) (simp_all add: minus_pyfloat_def round_even_not_NaN Let_def)

lemma exact_addD:
  "exact_add x y \<Longrightarrow> \<exists>a b. valof x = Some a \<and> valof y = Some b \<and> valof (x + y) = Some (a + b)"
  by (auto simp add: exact_add_def split: option.splits)

lemma exact_subD:
  "exact_sub x y \<Longrightarrow> \<exists>a b. valof x = Some a \<and> valof y = Some b \<and> valof (x - y) = Some (a - b)"
  by (auto simp add: exact_sub_def split: option.splits)

lemma exact_mulD:
  "exact_mul x y \<Longrightarrow> \<exists>a b. valof x = Some a \<and> valof y = Some b \<and> valof (x * y) = Some (a * b)"
  by (auto simp add: exact_mul_def split: option.splits)

lemma valof_two: "valof (float_of_int 2) = Some 2"
  by code_simp

subsection \<open>The difference of the breakevens in exact arithmetic\<close>

text \<open>
  With the laws of a ring (Python's integers), the difference is \<open>2 * premium\<close>.
\<close>

lemma breakeven_gap_ring:
  fixes strike premium :: "'a::ring_1"
  shows "breakeven_gap strike premium = Some (2 * premium)"
  by (simp add: breakeven_gap_def call_option_def put_option_def mult_2)

subsection \<open>The claims\<close>

text \<open>
  C1. For every strike \<open>> 0\<close> and premium \<open>\<ge> 0\<close>, the breakeven field of the call
  evaluator's result is \<open>strike + premium\<close>.
\<close>

theorem call_breakeven:
  fixes strike premium :: "'a::{plus,minus,zero,ord}"
  assumes "0 < strike" and "0 \<le> premium"
  shows "call_option strike premium ''breakeven'' = Some (PyNum (strike + premium))"
  by (simp add: call_option_def)

theorem call_breakeven_witness:
  "(0::pyfloat) < float_of_int 100 \<and> (0::pyfloat) \<le> float_of_int 5 \<and>
   call_option (float_of_int 100) (float_of_int 5) ''breakeven'' =
     Some (PyNum (float_of_int 105))"
proof -
  have s: "(0::pyfloat) < float_of_int 100" by code_simp
  have p: "(0::pyfloat) \<le> float_of_int 5" by code_simp
  have v: "float_of_int 100 + float_of_int 5 = float_of_int 105" by code_simp
  from call_breakeven [OF s p] s p v show ?thesis by simp
qed

text \<open>
  C2. For every strike \<open>> 0\<close> and premium \<open>\<ge> 0\<close>, the breakeven field of the put
  evaluator's result is \<open>strike - premium\<close>.
\<close>

theorem put_breakeven:
  fixes strike premium :: "'a::{plus,minus,zero,ord}"
  assumes "0 < strike" and "0 \<le> premium"
  shows "put_option strike premium ''breakeven'' = Some (PyNum (strike - premium))"
  by (simp add: put_option_def)

theorem put_breakeven_witness:
  "(0::pyfloat) < float_of_int 100 \<and> (0::pyfloat) \<le> float_of_int 5 \<and>
   put_option (float_of_int 100) (float_of_int 5) ''breakeven'' =
     Some (PyNum (float_of_int 95))"
proof -
  have s: "(0::pyfloat) < float_of_int 100" by code_simp
  have p: "(0::pyfloat) \<le> float_of_int 5" by code_simp
  have v: "float_of_int 100 - float_of_int 5 = float_of_int 95" by code_simp
  from put_breakeven [OF s p] s p v show ?thesis by simp
qed

text \<open>
  C3. For every input, the max_profit field of the call evaluator's result is the string
  \<^verbatim>\<open>"infinite"\<close>, and it is never a number.
\<close>

theorem call_max_profit_infinite:
  "call_option strike premium ''max_profit'' = Some (PyStr ''infinite'') \<and>
   (\<forall>x. call_option strike premium ''max_profit'' \<noteq> Some (PyNum x))"
  by (simp add: call_option_def)

text \<open>
  C4. For every input, the max_profit field of the put evaluator's result is
  \<open>strike - premium\<close> as computed: no branch of the function compares the premium with
  the strike or replaces the value.
\<close>

theorem put_max_profit_unclamped:
  "put_option strike premium ''max_profit'' = Some (PyNum (strike - premium))"
  by (simp add: put_option_def)

text \<open>
  C5. For every input, the max_loss field of the result of either evaluator is the
  premium argument.
\<close>

theorem max_loss_is_premium:
  "call_option strike premium ''max_loss'' = Some (PyNum premium) \<and>
   put_option strike premium ''max_loss'' = Some (PyNum premium)"
  by (simp add: call_option_def put_option_def)

text \<open>
  C7. For every input, the result of either evaluator has exactly the keys breakeven,
  max_profit and max_loss; max_profit is the string \<^verbatim>\<open>"infinite"\<close> for a call and a
  number for a put, and the two other fields are numbers.
\<close>

theorem result_shape:
  "dom (call_option strike premium) = {''breakeven'', ''max_profit'', ''max_loss''} \<and>
   dom (put_option strike premium) = {''breakeven'', ''max_profit'', ''max_loss''} \<and>
   call_option strike premium ''max_profit'' = Some (PyStr ''infinite'') \<and>
   (\<exists>x. put_option strike premium ''max_profit'' = Some (PyNum x)) \<and>
   (\<exists>x y. call_option strike premium ''breakeven'' = Some (PyNum x) \<and>
          call_option strike premium ''max_loss'' = Some (PyNum y)) \<and>
   (\<exists>x y. put_option strike premium ''breakeven'' = Some (PyNum x) \<and>
          put_option strike premium ''max_loss'' = Some (PyNum y))"
  by (simp add: call_option_dom put_option_dom call_option_fields put_option_fields)

text \<open>
  C9. The claim: for every input the max_profit and the breakeven of one put result are
  equal. Both fields hold the value of \<open>strike - premium\<close>, so they are equal
  (\<^verbatim>\<open>==\<close>) whenever that value is not NaN, which is so for all finite strike and
  premium. At strike and premium both \<^verbatim>\<open>inf\<close> the value is NaN, and NaN is not equal
  to itself.
\<close>

theorem put_max_profit_eq_breakeven:
  "(strike - premium \<noteq> NaN \<longrightarrow>
      (\<exists>a b. put_option strike premium ''max_profit'' = Some (PyNum a) \<and>
             put_option strike premium ''breakeven'' = Some (PyNum b) \<and> py_eq a b)) \<and>
   (is_finite strike \<longrightarrow> is_finite premium \<longrightarrow> strike - premium \<noteq> NaN)"
  by (simp add: put_option_def py_eq_refl finite_sub_not_NaN)

theorem put_max_profit_eq_breakeven_witness:
  "is_finite (float_of_int 50) \<and> is_finite (float_of_int 60) \<and>
   float_of_int 50 - float_of_int 60 \<noteq> NaN \<and>
   put_option (float_of_int 50) (float_of_int 60) ''max_profit'' = Some (PyNum (float_of_int (- 10))) \<and>
   put_option (float_of_int 50) (float_of_int 60) ''breakeven'' = Some (PyNum (float_of_int (- 10))) \<and>
   py_eq (float_of_int (- 10)) (float_of_int (- 10))"
proof -
  have fs: "is_finite (float_of_int 50)" by code_simp
  have fp: "is_finite (float_of_int 60)" by code_simp
  have v: "float_of_int 50 - float_of_int 60 = float_of_int (- 10)" by code_simp
  from put_max_profit_eq_breakeven [of "float_of_int 50" "float_of_int 60"] fs fp
  have n: "float_of_int 50 - float_of_int 60 \<noteq> NaN" by blast
  with put_max_profit_eq_breakeven [of "float_of_int 50" "float_of_int 60"]
  obtain a b where
    "put_option (float_of_int 50) (float_of_int 60) ''max_profit'' = Some (PyNum a)"
    "put_option (float_of_int 50) (float_of_int 60) ''breakeven'' = Some (PyNum b)"
    "py_eq a b"
    by blast
  with fs fp n v show ?thesis by (simp add: put_option_def)
qed

theorem put_fields_nan_counterexample:
  "put_option (Infinity False) (Infinity False) ''max_profit'' = Some (PyNum NaN) \<and>
   put_option (Infinity False) (Infinity False) ''breakeven'' = Some (PyNum NaN) \<and>
   \<not> py_eq NaN NaN"
  by (simp add: put_option_def minus_pyfloat_def py_eq_def)

text \<open>
  C10. The claim: for every input the call breakeven exceeds the put breakeven by exactly
  \<open>2 * premium\<close>. On floats each of the operations rounds to the nearest double: at
  strike \<^verbatim>\<open>1e16\<close> and premium \<^verbatim>\<open>1.0\<close> the sum is not exact, both breakevens
  are \<^verbatim>\<open>1e16\<close>, their difference is \<^verbatim>\<open>0.0\<close>, and \<open>2 * premium\<close> is
  \<^verbatim>\<open>2.0\<close>. The difference is equal (\<^verbatim>\<open>==\<close>) to \<open>2 * premium\<close> whenever the
  sum, the difference, the difference of the two and the product by two are exact.
\<close>

theorem breakeven_gap_when_exact:
  assumes "exact_add strike premium"
    and "exact_sub strike premium"
    and "exact_sub (strike + premium) (strike - premium)"
    and "exact_mul (float_of_int 2) premium"
  shows "\<exists>g. breakeven_gap strike premium = Some g \<and> py_eq g (float_of_int 2 * premium)"
proof -
  from exact_addD [OF assms(1)] obtain a b where
    a: "valof strike = Some a" and b: "valof premium = Some b"
    and s: "valof (strike + premium) = Some (a + b)"
    by blast
  from exact_subD [OF assms(2)] a b have d: "valof (strike - premium) = Some (a - b)"
    by auto
  from exact_subD [OF assms(3)] s d
  have g: "valof ((strike + premium) - (strike - premium)) = Some ((a + b) - (a - b))"
    by auto
  from exact_mulD [OF assms(4)] b valof_two
  have t: "valof (float_of_int 2 * premium) = Some (2 * b)"
    by auto
  have "breakeven_gap strike premium = Some ((strike + premium) - (strike - premium))"
    by (simp add: breakeven_gap_def call_option_def put_option_def)
  moreover have "py_eq ((strike + premium) - (strike - premium)) (float_of_int 2 * premium)"
    using g t by (simp add: py_eq_def)
  ultimately show ?thesis by blast
qed

theorem breakeven_gap_when_exact_witness:
  "exact_add (float_of_int 100) (float_of_int 5) \<and>
   exact_sub (float_of_int 100) (float_of_int 5) \<and>
   exact_sub (float_of_int 100 + float_of_int 5) (float_of_int 100 - float_of_int 5) \<and>
   exact_mul (float_of_int 2) (float_of_int 5) \<and>
   (\<exists>g. breakeven_gap (float_of_int 100) (float_of_int 5) = Some g \<and>
        py_eq g (float_of_int 2 * float_of_int 5))"
proof -
  have 1: "exact_add (float_of_int 100) (float_of_int 5)" by code_simp
  have 2: "exact_sub (float_of_int 100) (float_of_int 5)" by code_simp
  have 3: "exact_sub (float_of_int 100 + float_of_int 5) (float_of_int 100 - float_of_int 5)"
    by code_simp
  have 4: "exact_mul (float_of_int 2) (float_of_int 5)" by code_simp
  from breakeven_gap_when_exact [OF 1 2 3 4] 1 2 3 4 show ?thesis by blast
qed

theorem breakeven_gap_float_counterexample:
  "breakeven_gap (float_of_int (10 ^ 16)) (float_of_int 1) = Some (Finite False 0 (- 1074)) \<and>
   float_of_int 2 * float_of_int 1 = Finite False (2 ^ 52) (- 51) \<and>
   \<not> py_eq (Finite False 0 (- 1074)) (Finite False (2 ^ 52) (- 51)) \<and>
   \<not> exact_add (float_of_int (10 ^ 16)) (float_of_int 1)"
  by code_simp

end
